theory Spec2Isabelle
  imports Main "HOL-Library.Sublist"
begin

section \<open>The WhatsApp gateway service (server/whatsapp.ts)\<close>

text \<open>
  A shallow embedding of the class \<open>WhatsAppService\<close>. The service object, the storage
  module, the socket.io emitter, the pending \<open>setTimeout\<close> callbacks, the calls made on
  the Baileys socket and the lines written with \<open>console.error\<close> are the fields of one
  record \<open>world\<close>; every method takes the world and returns the new one. A method that
  can throw returns \<open>(error + 'a) \<times> world\<close>: \<open>Inl\<close> is the rejected promise, and the world
  beside it is the state at the moment of the throw. What the collaborators outside
  the class answer (whether a call throws, the handle \<open>makeWASocket\<close> returns, the clock)
  is the record \<open>env\<close>, a parameter of every method. The informational \<open>console.log\<close>
  lines are left out.
\<close>

subsection \<open>JavaScript values\<close>

text \<open>A thrown \<open>Error\<close> object with its \<open>message\<close>.\<close>

datatype error = Error string

fun message_of :: "error \<Rightarrow> string" where
  "message_of (Error m) = m"

text \<open>
  A string-valued property that may be \<open>null\<close> or \<open>undefined\<close> is a \<open>string option\<close>.
  \<open>x || d\<close> yields \<open>d\<close> when \<open>x\<close> is missing or the empty string.
\<close>

fun truthy :: "string option \<Rightarrow> bool" where
  "truthy None = False"
| "truthy (Some s) = (s \<noteq> [])"

definition or_str :: "string option \<Rightarrow> string \<Rightarrow> string" where
  "or_str x d = (if truthy x then the x else d)"

definition or_null :: "string option \<Rightarrow> string option" where
  "or_null x = (if truthy x then x else None)"

text \<open>\<open>s.includes(sub)\<close>: \<open>sub\<close> occurs in \<open>s\<close> as a contiguous substring.\<close>

fun str_includes :: "string \<Rightarrow> string \<Rightarrow> bool" where
  "str_includes [] sub = (sub = [])"
| "str_includes (c # cs) sub = (if prefix sub (c # cs) then True else str_includes cs sub)"

text \<open>\<open>s.split(sep)[0]\<close> for a one-character separator: the text before its first occurrence.\<close>

definition split_first :: "char \<Rightarrow> string \<Rightarrow> string" where
  "split_first sep s = takeWhile (\<lambda>c. c \<noteq> sep) s"

subsection \<open>Data\<close>

text \<open>The Baileys socket handle, as far as the service reads it: \<open>sock.user?.id\<close>.\<close>

record WASocket =
  sock_no :: nat
  user_id :: "string option"

text \<open>The storage schema's records (\<open>Session\<close>, \<open>Contact\<close>, \<open>Message\<close>); times are epoch milliseconds.\<close>

record Session =
  phoneNumber :: "string option"
  isConnected :: bool
  qrCode :: "string option"
  lastConnected :: "nat option"

text \<open>The argument of \<open>updateSession\<close>: a partial Session; \<open>None\<close> is a key that is absent.\<close>

record Session_patch =
  set_phoneNumber :: "string option option"
  set_isConnected :: "bool option"
  set_qrCode :: "string option option"
  set_lastConnected :: "nat option option"

record Contact =
  contact_id :: string
  contact_name :: "string option"
  number :: string
  pushname :: "string option"
  isGroup :: bool

record Message =
  chatId :: string
  msg_from :: string
  msg_to :: string
  body :: string
  timestamp :: nat
  isFromMe :: bool

text \<open>The \<open>connection.update\<close> payload: \<open>statusCode\<close> is \<open>lastDisconnect?.error?.output?.statusCode\<close>.\<close>

datatype connection = Connecting | Open | Close

record ConnectionUpdate =
  connection :: "connection option"
  statusCode :: "nat option"
  qr :: "string option"

text \<open>One item of a \<open>messages.upsert\<close> batch.\<close>

record MessageContent =
  conversation :: "string option"
  extendedTextMessage_text :: "string option"

record WAMessage =
  key_remoteJid :: "string option"
  key_fromMe :: bool
  message :: "MessageContent option"
  pushName :: "string option"
  messageTimestamp :: nat

text \<open>What \<open>io.emit\<close> publishes: \<open>qr {qr}\<close>, \<open>disconnected {reason}\<close>, \<open>ready\<close>, \<open>message {chatId, from, body}\<close>.\<close>

datatype event =
    Ev_qr string
  | Ev_disconnected string
  | Ev_ready
  | Ev_message string string string

record world =
  sock :: "WASocket option"
  io :: "nat option"
  isInitialized :: bool
  this_qrCode :: "string option"
  session :: "Session option"
  contacts :: "string \<rightharpoonup> Contact"
  messages :: "Message list"
  emitted :: "event list"
  timers :: "nat list"
  sendCalls :: "(string \<times> string) list"
  console_errors :: "(string \<times> error) list"

text \<open>
  The collaborators' answers. \<open>connect_error\<close> is a throw of \<open>useMultiFileAuthState\<close>,
  \<open>fetchLatestBaileysVersion\<close> or \<open>makeWASocket\<close>; the \<open>_error\<close> fields of the storage writes
  and of the socket calls say which call throws what. \<open>chats\<close> is the answer of
  \<open>groupFetchAllParticipating\<close>: the entries (chat id, subject) of the object it resolves to.
\<close>

record env =
  now :: nat
  connect_error :: "error option"
  new_sock :: WASocket
  logout_error :: "error option"
  send_error :: "string \<Rightarrow> string \<Rightarrow> error option"
  chats :: "error + (string \<times> string option) list"
  updateSession_error :: "Session_patch \<Rightarrow> error option"
  contact_error :: "Contact \<Rightarrow> error option"
  message_error :: "Message \<Rightarrow> error option"

text \<open>\<open>DisconnectReason.loggedOut\<close> of the Baileys library.\<close>

definition DisconnectReason_loggedOut :: nat where
  "DisconnectReason_loggedOut = 401"

subsection \<open>Collaborators\<close>

definition console_error :: "string \<Rightarrow> error \<Rightarrow> world \<Rightarrow> world" where
  "console_error label e w = w\<lparr>console_errors := console_errors w @ [(label, e)]\<rparr>"

text \<open>\<open>this.io?.emit(...)\<close>: nothing is published while \<open>io\<close> is null.\<close>

definition emit :: "event \<Rightarrow> world \<Rightarrow> world" where
  "emit ev w = (case io w of None \<Rightarrow> w | Some i \<Rightarrow> w\<lparr>emitted := emitted w @ [ev]\<rparr>)"

text \<open>
  The storage module (\<open>./storage\<close>) is not among the sources; the five operations the
  service calls on it follow the spec's interface: \<open>updateSession(partial Session)\<close>,
  \<open>getSession() -> Session?\<close>, \<open>createOrUpdateContact(Contact)\<close>,
  \<open>getContact(chatId) -> Contact?\<close>, \<open>createMessage(Message) -> Message\<close>. A write that
  throws leaves the store as it was; the two reads do not throw.
\<close>

text \<open>Modelled from the spec: the Session a first \<open>updateSession\<close> starts from (storage is missing).\<close>

definition empty_session :: Session where
  "empty_session = \<lparr>phoneNumber = None, isConnected = False, qrCode = None, lastConnected = None\<rparr>"

text \<open>Modelled from the spec: a partial Session overwrites the keys it has (storage is missing).\<close>

definition apply_patch :: "Session_patch \<Rightarrow> Session \<Rightarrow> Session" where
  "apply_patch p s =
     \<lparr>phoneNumber = (case set_phoneNumber p of None \<Rightarrow> phoneNumber s | Some v \<Rightarrow> v),
      isConnected = (case set_isConnected p of None \<Rightarrow> isConnected s | Some v \<Rightarrow> v),
      qrCode = (case set_qrCode p of None \<Rightarrow> qrCode s | Some v \<Rightarrow> v),
      lastConnected = (case set_lastConnected p of None \<Rightarrow> lastConnected s | Some v \<Rightarrow> v)\<rparr>"

text \<open>
  Modelled from the spec: \<open>storage.updateSession\<close> (storage is missing). The Session is a
  singleton record, mutated by a partial update.
\<close>

definition updateSession :: "env \<Rightarrow> Session_patch \<Rightarrow> world \<Rightarrow> (error + unit) \<times> world" where
  "updateSession E p w =
     (case updateSession_error E p of
        Some e \<Rightarrow> (Inl e, w)
      | None \<Rightarrow>
          (Inr (), w\<lparr>session :=
             Some (apply_patch p (case session w of None \<Rightarrow> empty_session | Some s \<Rightarrow> s))\<rparr>))"

text \<open>Modelled from the spec: \<open>storage.getSession\<close> (storage is missing).\<close>

definition getSession :: "world \<Rightarrow> Session option" where
  "getSession w = session w"

text \<open>
  Modelled from the spec: \<open>storage.createOrUpdateContact\<close> (storage is missing). A Contact is
  keyed by its chat identifier; an upsert under a known key replaces the record.
\<close>

definition createOrUpdateContact :: "env \<Rightarrow> Contact \<Rightarrow> world \<Rightarrow> (error + unit) \<times> world" where
  "createOrUpdateContact E c w =
     (case contact_error E c of
        Some e \<Rightarrow> (Inl e, w)
      | None \<Rightarrow> (Inr (), w\<lparr>contacts := (contacts w)(contact_id c \<mapsto> c)\<rparr>))"

text \<open>Modelled from the spec: \<open>storage.getContact\<close> (storage is missing).\<close>

definition getContact :: "string \<Rightarrow> world \<Rightarrow> Contact option" where
  "getContact k w = contacts w k"

text \<open>
  Modelled from the spec: \<open>storage.createMessage\<close> (storage is missing). Messages are
  append-only, and the stored Message is returned.
\<close>

definition createMessage :: "env \<Rightarrow> Message \<Rightarrow> world \<Rightarrow> (error + Message) \<times> world" where
  "createMessage E m w =
     (case message_error E m of
        Some e \<Rightarrow> (Inl e, w)
      | None \<Rightarrow> (Inr m, w\<lparr>messages := messages w @ [m]\<rparr>))"

text \<open>The socket's \<open>sendMessage(chatId, {text})\<close>; every call is recorded, also one that throws.\<close>

definition sock_sendMessage :: "env \<Rightarrow> string \<Rightarrow> string \<Rightarrow> world \<Rightarrow> (error + unit) \<times> world" where
  "sock_sendMessage E c text w =
     (case send_error E c text of
        Some e \<Rightarrow> (Inl e, w\<lparr>sendCalls := sendCalls w @ [(c, text)]\<rparr>)
      | None \<Rightarrow> (Inr (), w\<lparr>sendCalls := sendCalls w @ [(c, text)]\<rparr>))"

subsection \<open>connectToWhatsApp, initialize and the reconnect timer\<close>

text \<open>Lines 40-65: a throw happens before \<open>this.sock\<close> is assigned.\<close>

definition connectToWhatsApp :: "env \<Rightarrow> world \<Rightarrow> (error + unit) \<times> world" where
  "connectToWhatsApp E w =
     (case connect_error E of
        Some e \<Rightarrow> (Inl e, w)
      | None \<Rightarrow> (Inr (), w\<lparr>sock := Some (new_sock E)\<rparr>))"

text \<open>Lines 22-38.\<close>

definition initialize :: "env \<Rightarrow> nat \<Rightarrow> world \<Rightarrow> (error + unit) \<times> world" where
  "initialize E i w =
     (if isInitialized w then (Inr (), w)
      else
        (case connectToWhatsApp E (w\<lparr>io := Some i, isInitialized := True\<rparr>) of
           (Inl e, w') \<Rightarrow> (Inl e, console_error ''Failed to initialize WhatsApp service:'' e w')
         | (Inr u, w') \<Rightarrow> (Inr (), w')))"

text \<open>
  \<open>timers\<close> holds the delay of every pending \<open>setTimeout\<close> callback of lines 96-98. When one
  fires it calls \<open>this.connectToWhatsApp()\<close> and drops the promise, so a rejection reaches
  nobody.
\<close>

definition fire_timer :: "env \<Rightarrow> world \<Rightarrow> world" where
  "fire_timer E w =
     (case timers w of
        [] \<Rightarrow> w
      | t # ts \<Rightarrow> snd (connectToWhatsApp E (w\<lparr>timers := ts\<rparr>)))"

subsection \<open>loadContacts\<close>

text \<open>Lines 163-175: the loop over \<open>Object.entries(chats)\<close>, each entry in its own try/catch.\<close>

fun loadContacts_loop :: "env \<Rightarrow> (string \<times> string option) list \<Rightarrow> world \<Rightarrow> world" where
  "loadContacts_loop E [] w = w"
| "loadContacts_loop E ((c, subject) # rest) w =
     (case createOrUpdateContact E
             \<lparr>contact_id = c, contact_name = or_null subject, number = split_first CHR ''@'' c,
              pushname = or_null subject, isGroup = str_includes c ''@g.us''\<rparr> w of
        (Inl e, w') \<Rightarrow> loadContacts_loop E rest (console_error ''Error loading contact:'' e w')
      | (Inr u, w') \<Rightarrow> loadContacts_loop E rest w')"

text \<open>Lines 157-181.\<close>

definition loadContacts :: "env \<Rightarrow> world \<Rightarrow> world" where
  "loadContacts E w =
     (case sock w of
        None \<Rightarrow> w
      | Some s \<Rightarrow>
          (case chats E of
             Inl e \<Rightarrow> console_error ''Error loading contacts:'' e w
           | Inr cs \<Rightarrow> loadContacts_loop E cs w))"

subsection \<open>handleConnectionUpdate\<close>

text \<open>Lines 70-79: the branch \<open>if (qr)\<close>.\<close>

definition on_qr :: "env \<Rightarrow> string \<Rightarrow> world \<Rightarrow> (error + unit) \<times> world" where
  "on_qr E q w =
     (case updateSession E
             \<lparr>set_phoneNumber = None, set_isConnected = Some False, set_qrCode = Some (Some q),
              set_lastConnected = None\<rparr> (w\<lparr>this_qrCode := Some q\<rparr>) of
        (Inl e, w') \<Rightarrow> (Inl e, w')
      | (Inr u, w') \<Rightarrow> (Inr (), emit (Ev_qr q) w'))"

text \<open>Lines 81-99: the branch \<open>connection === "close"\<close>.\<close>

definition on_close :: "env \<Rightarrow> nat option \<Rightarrow> world \<Rightarrow> (error + unit) \<times> world" where
  "on_close E code w =
     (let shouldReconnect = (code \<noteq> Some DisconnectReason_loggedOut) in
      case updateSession E
             \<lparr>set_phoneNumber = Some None, set_isConnected = Some False, set_qrCode = Some None,
              set_lastConnected = None\<rparr> w of
        (Inl e, w') \<Rightarrow> (Inl e, w')
      | (Inr u, w') \<Rightarrow>
          (let w'' = emit (Ev_disconnected ''Connection closed'') w' in
           if shouldReconnect then (Inr (), w''\<lparr>timers := timers w'' @ [3000]\<rparr>)
           else (Inr (), w'')))"

text \<open>Lines 100-115: the branch \<open>connection === "open"\<close>.\<close>

definition on_open :: "env \<Rightarrow> world \<Rightarrow> (error + unit) \<times> world" where
  "on_open E w =
     (let w0 = w\<lparr>this_qrCode := None\<rparr>;
          phone = or_null (case sock w0 of
                             None \<Rightarrow> None
                           | Some s \<Rightarrow> map_option (split_first CHR '':'') (user_id s)) in
      case updateSession E
             \<lparr>set_phoneNumber = Some phone, set_isConnected = Some True, set_qrCode = Some None,
              set_lastConnected = Some (Some (now E))\<rparr> w0 of
        (Inl e, w') \<Rightarrow> (Inl e, w')
      | (Inr u, w') \<Rightarrow> (Inr (), loadContacts E (emit Ev_ready w')))"

text \<open>Lines 67-116.\<close>

definition handleConnectionUpdate :: "env \<Rightarrow> ConnectionUpdate \<Rightarrow> world \<Rightarrow> (error + unit) \<times> world" where
  "handleConnectionUpdate E u w =
     (case (if truthy (qr u) then on_qr E (the (qr u)) w else (Inr (), w)) of
        (Inl e, w1) \<Rightarrow> (Inl e, w1)
      | (Inr x, w1) \<Rightarrow>
          if connection u = Some Close then on_close E (statusCode u) w1
          else if connection u = Some Open then on_open E w1
          else (Inr (), w1))"

subsection \<open>handleIncomingMessages\<close>

text \<open>The two object literals of lines 129-144.\<close>

definition inbound_contact :: "WAMessage \<Rightarrow> Contact" where
  "inbound_contact msg =
     (let c = or_str (key_remoteJid msg) '''';
          contactName = or_null (pushName msg) in
      \<lparr>contact_id = c, contact_name = contactName, number = split_first CHR ''@'' c,
       pushname = contactName, isGroup = str_includes c ''@g.us''\<rparr>)"

definition inbound_message :: "world \<Rightarrow> WAMessage \<Rightarrow> MessageContent \<Rightarrow> Message" where
  "inbound_message w msg content =
     (let c = or_str (key_remoteJid msg) '''';
          from = c;
          b = or_str (conversation content) (or_str (extendedTextMessage_text content) '''') in
      \<lparr>chatId = c, msg_from = from,
       msg_to = or_str (case sock w of None \<Rightarrow> None | Some s \<Rightarrow> user_id s) '''',
       body = b, timestamp = messageTimestamp msg * 1000, isFromMe = False\<rparr>)"

text \<open>The payload of the \<open>message\<close> event, lines 146-150.\<close>

definition inbound_event :: "WAMessage \<Rightarrow> MessageContent \<Rightarrow> event" where
  "inbound_event msg content =
     (let c = or_str (key_remoteJid msg) '''';
          from = c;
          b = or_str (conversation content) (or_str (extendedTextMessage_text content) '''') in
      Ev_message c from b)"

text \<open>Lines 124-150: the body of the try block for one item.\<close>

definition ingest_item :: "env \<Rightarrow> WAMessage \<Rightarrow> MessageContent \<Rightarrow> world \<Rightarrow> (error + unit) \<times> world" where
  "ingest_item E msg content w =
     (case createOrUpdateContact E (inbound_contact msg) w of
        (Inl e, w1) \<Rightarrow> (Inl e, w1)
      | (Inr u, w1) \<Rightarrow>
          (case createMessage E (inbound_message w1 msg content) w1 of
             (Inl e, w2) \<Rightarrow> (Inl e, w2)
           | (Inr saved, w2) \<Rightarrow> (Inr (), emit (inbound_event msg content) w2)))"

text \<open>
  Lines 118-155: the loop, with its two \<open>continue\<close> guards and the catch of each item.
  The guards read \<open>msg.message\<close> and \<open>msg.key.fromMe\<close> of an item that has its key, and
  everything else stands inside the try block, so the method itself has no throw.
\<close>

fun handleIncomingMessages :: "env \<Rightarrow> WAMessage list \<Rightarrow> world \<Rightarrow> world" where
  "handleIncomingMessages E [] w = w"
| "handleIncomingMessages E (msg # rest) w =
     (case message msg of
        None \<Rightarrow> handleIncomingMessages E rest w
      | Some content \<Rightarrow>
          if key_fromMe msg then handleIncomingMessages E rest w
          else
            (case ingest_item E msg content w of
               (Inl e, w') \<Rightarrow>
                 handleIncomingMessages E rest (console_error ''Error processing message:'' e w')
             | (Inr u, w') \<Rightarrow> handleIncomingMessages E rest w'))"

subsection \<open>sendMessage\<close>

text \<open>Lines 193-196: the chat identifier a destination is sent to.\<close>

definition chatId_for :: "string \<Rightarrow> string" where
  "chatId_for to = (if \<not> str_includes to ''@'' then to @ ''@s.whatsapp.net'' else to)"

text \<open>Lines 199-221: the body of the try block.\<close>

definition send_body :: "env \<Rightarrow> WASocket \<Rightarrow> string \<Rightarrow> string \<Rightarrow> world \<Rightarrow> (error + Message) \<times> world" where
  "send_body E s to text w =
     (let c = chatId_for to in
      case sock_sendMessage E c text w of
        (Inl e, w1) \<Rightarrow> (Inl e, w1)
      | (Inr r, w1) \<Rightarrow>
          (case (if getContact c w1 = None
                 then createOrUpdateContact E
                        \<lparr>contact_id = c, contact_name = None, number = to, pushname = None,
                         isGroup = str_includes c ''@g.us''\<rparr> w1
                 else (Inr (), w1)) of
             (Inl e, w2) \<Rightarrow> (Inl e, w2)
           | (Inr u, w2) \<Rightarrow>
               createMessage E
                 \<lparr>chatId = c, msg_from = or_str (user_id s) c, msg_to = c, body = text,
                  timestamp = now E, isFromMe = True\<rparr> w2))"

text \<open>Lines 183-226. The catch throws \<open>new Error(error.message || "Failed to send message")\<close>.\<close>

definition sendMessage :: "env \<Rightarrow> string \<Rightarrow> string \<Rightarrow> world \<Rightarrow> (error + Message) \<times> world" where
  "sendMessage E to text w =
     (case sock w of
        None \<Rightarrow> (Inl (Error ''WhatsApp client not initialized''), w)
      | Some s \<Rightarrow>
          if \<not> (case getSession w of None \<Rightarrow> False | Some se \<Rightarrow> isConnected se)
          then (Inl (Error ''WhatsApp is not connected''), w)
          else
            (case send_body E s to text w of
               (Inl e, w') \<Rightarrow>
                 (Inl (Error (or_str (Some (message_of e)) ''Failed to send message'')),
                  console_error ''Error sending message:'' e w')
             | (Inr saved, w') \<Rightarrow> (Inr saved, w')))"

subsection \<open>disconnect\<close>

text \<open>Lines 230-233: \<open>this.sock\<close> is set to null only after \<open>logout\<close> has resolved.\<close>

definition logout_step :: "env \<Rightarrow> world \<Rightarrow> (error + unit) \<times> world" where
  "logout_step E w =
     (case sock w of
        None \<Rightarrow> (Inr (), w)
      | Some s \<Rightarrow>
          (case logout_error E of
             Some e \<Rightarrow> (Inl e, w)
           | None \<Rightarrow> (Inr (), w\<lparr>sock := None\<rparr>)))"

text \<open>Lines 228-247: whatever the try block throws is written to the console and thrown again.\<close>

definition disconnect :: "env \<Rightarrow> world \<Rightarrow> (error + unit) \<times> world" where
  "disconnect E w =
     (case logout_step E w of
        (Inl e, w1) \<Rightarrow> (Inl e, console_error ''Error disconnecting:'' e w1)
      | (Inr u, w1) \<Rightarrow>
          (case updateSession E
                  \<lparr>set_phoneNumber = Some None, set_isConnected = Some False,
                   set_qrCode = Some None, set_lastConnected = None\<rparr> w1 of
             (Inl e, w2) \<Rightarrow> (Inl e, console_error ''Error disconnecting:'' e w2)
           | (Inr u, w2) \<Rightarrow> (Inr (), w2\<lparr>isInitialized := False\<rparr>)))"

subsection \<open>The Session invariant\<close>


subsection \<open>Concrete runs\<close>

text \<open>A freshly constructed service beside an empty store, and collaborators that never throw.\<close>

definition world0 :: world where
  "world0 =
     \<lparr>sock = None, io = None, isInitialized = False, this_qrCode = None, session = None,
      contacts = Map.empty, messages = [], emitted = [], timers = [], sendCalls = [],
      console_errors = []\<rparr>"

definition env_ok :: env where
  "env_ok =
     \<lparr>now = 1700000000000, connect_error = None,
      new_sock = \<lparr>sock_no = 1, user_id = Some ''15550001111:7@s.whatsapp.net''\<rparr>,
      logout_error = None, send_error = (\<lambda>c t. None), chats = Inr [],
      updateSession_error = (\<lambda>p. None), contact_error = (\<lambda>c. None),
      message_error = (\<lambda>m. None)\<rparr>"

text \<open>The same collaborators with one of them throwing.\<close>

definition env_connect_fails :: env where
  "env_connect_fails = env_ok\<lparr>connect_error := Some (Error ''no network'')\<rparr>"

definition env_logout_fails :: env where
  "env_logout_fails = env_ok\<lparr>logout_error := Some (Error ''Connection Closed'')\<rparr>"

definition env_session_write_fails :: env where
  "env_session_write_fails = env_ok\<lparr>updateSession_error := (\<lambda>p. Some (Error ''database is down''))\<rparr>"

definition env_message_write_fails :: env where
  "env_message_write_fails = env_ok\<lparr>message_error := (\<lambda>m. Some (Error ''insert failed''))\<rparr>"

definition env_two_fails :: env where
  "env_two_fails =
     env_ok\<lparr>message_error := (\<lambda>m. if body m = ''two'' then Some (Error ''insert failed'') else None)\<rparr>"

definition update_open :: ConnectionUpdate where
  "update_open = \<lparr>connection = Some Open, statusCode = None, qr = None\<rparr>"

definition update_qr :: ConnectionUpdate where
  "update_qr = \<lparr>connection = None, statusCode = None, qr = Some ''2@pairing-code''\<rparr>"

definition update_close_500 :: ConnectionUpdate where
  "update_close_500 = \<lparr>connection = Some Close, statusCode = Some 500, qr = None\<rparr>"

definition update_close_loggedOut :: ConnectionUpdate where
  "update_close_loggedOut = \<lparr>connection = Some Close, statusCode = Some 401, qr = None\<rparr>"

text \<open>The service after \<open>initialize\<close> and the \<open>open\<close> update that follows it.\<close>

definition world_open :: world where
  "world_open = snd (handleConnectionUpdate env_ok update_open (snd (initialize env_ok 0 world0)))"

text \<open>A batch of three inbound items from three chats, with the bodies one, two and three.\<close>

definition inbound :: "string \<Rightarrow> string \<Rightarrow> WAMessage" where
  "inbound jid text =
     \<lparr>key_remoteJid = Some jid, key_fromMe = False,
      message = Some \<lparr>conversation = Some text, extendedTextMessage_text = None\<rparr>,
      pushName = None, messageTimestamp = 1700000000\<rparr>"

definition batch3 :: "WAMessage list" where
  "batch3 =
     [inbound ''111@s.whatsapp.net'' ''one'', inbound ''222@s.whatsapp.net'' ''two'',
      inbound ''333@g.us'' ''three'']"

text \<open>The service after \<open>initialize\<close> and a QR challenge: the Session holds the pairing code.\<close>

definition world_qr :: world where
  "world_qr = snd (handleConnectionUpdate env_ok update_qr (snd (initialize env_ok 0 world0)))"

subsection \<open>What a run of the ingest loop leaves in place\<close>

text \<open>
  \<open>extends w w'\<close>: \<open>w'\<close> has the socket and the emitter of \<open>w\<close>, and every Message, every
  Contact key and every console line of \<open>w\<close> is still there in \<open>w'\<close>.
\<close>

definition extends :: "world \<Rightarrow> world \<Rightarrow> bool" where
  "extends w w' =
     (sock w' = sock w \<and> io w' = io w \<and>
      set (messages w) \<subseteq> set (messages w') \<and>
      dom (contacts w) \<subseteq> dom (contacts w') \<and>
      set (console_errors w) \<subseteq> set (console_errors w'))"

section \<open>Properties\<close>

subsection \<open>Evaluating the concrete runs\<close>

lemmas run_defs = world0_def env_ok_def update_open_def handleConnectionUpdate_def initialize_def
  connectToWhatsApp_def on_open_def on_close_def on_qr_def updateSession_def emit_def
  loadContacts_def apply_patch_def empty_session_def or_null_def or_str_def split_first_def
  console_error_def

lemmas ingest_defs = ingest_item_def createOrUpdateContact_def createMessage_def
  inbound_contact_def inbound_message_def inbound_event_def emit_def console_error_def
  or_str_def or_null_def split_first_def Let_def

lemma world_open_eq:
  "world_open =
     \<lparr>sock = Some \<lparr>sock_no = 1, user_id = Some ''15550001111:7@s.whatsapp.net''\<rparr>,
      io = Some 0, isInitialized = True, this_qrCode = None,
      session = Some \<lparr>phoneNumber = Some ''15550001111'', isConnected = True, qrCode = None,
                      lastConnected = Some 1700000000000\<rparr>,
      contacts = Map.empty, messages = [], emitted = [Ev_ready], timers = [], sendCalls = [],
      console_errors = []\<rparr>"
  by (simp add: world_open_def run_defs)

lemma world_qr_eq:
  "world_qr =
     \<lparr>sock = Some \<lparr>sock_no = 1, user_id = Some ''15550001111:7@s.whatsapp.net''\<rparr>,
      io = Some 0, isInitialized = True, this_qrCode = Some ''2@pairing-code'',
      session = Some \<lparr>phoneNumber = None, isConnected = False,
                      qrCode = Some ''2@pairing-code'', lastConnected = None\<rparr>,
      contacts = Map.empty, messages = [], emitted = [Ev_qr ''2@pairing-code''], timers = [],
      sendCalls = [], console_errors = []\<rparr>"
  by (simp add: world_qr_def update_qr_def run_defs)

subsection \<open>initialize\<close>

text \<open>
  C1. When the connection-establishment step of \<open>initialize\<close> throws, the error reaches the
  caller, but \<open>isInitialized\<close> was set before the attempt and no path resets it: the service
  stays marked initialized, and every later \<open>initialize\<close>, whatever the collaborators would
  answer then, returns at the guard of line 23 without connecting.
\<close>

theorem initialize_failure_stays_initialized:
  assumes "\<not> isInitialized w" and "connect_error E = Some e"
  shows "fst (initialize E i w) = Inl e \<and>
         isInitialized (snd (initialize E i w)) \<and>
         initialize E' j (snd (initialize E i w)) = (Inr (), snd (initialize E i w))"
  using assms by (simp add: initialize_def connectToWhatsApp_def console_error_def)

theorem initialize_failure_witness:
  "fst (initialize env_connect_fails 0 world0) = Inl (Error ''no network'') \<and>
   isInitialized (snd (initialize env_connect_fails 0 world0)) \<and>
   initialize env_ok 0 (snd (initialize env_connect_fails 0 world0)) =
     (Inr (), snd (initialize env_connect_fails 0 world0)) \<and>
   sock (snd (initialize env_ok 0 (snd (initialize env_connect_fails 0 world0)))) = None"
proof -
  have a: "\<not> isInitialized world0" by (simp add: world0_def)
  have b: "connect_error env_connect_fails = Some (Error ''no network'')"
    by (simp add: env_connect_fails_def)
  have c: "sock (snd (initialize env_connect_fails 0 world0)) = None"
    by (simp add: initialize_def connectToWhatsApp_def console_error_def b world0_def)
  show ?thesis
    using initialize_failure_stays_initialized [OF a b, where i = 0 and E' = env_ok and j = 0] c
    by simp
qed

subsection \<open>disconnect and the reconnect timer\<close>

text \<open>
  C2, as the code has it. \<open>disconnect\<close> does not touch the pending reconnect timers: the
  handle \<open>setTimeout\<close> returns is never kept, so every timer that was pending before
  \<open>disconnect\<close> is pending after it, and when one fires it runs \<open>connectToWhatsApp\<close>.
\<close>

theorem disconnect_keeps_timers:
  "timers (snd (disconnect E w)) = timers w \<and>
   (timers w \<noteq> [] \<longrightarrow>
      fire_timer E' (snd (disconnect E w)) =
        snd (connectToWhatsApp E' ((snd (disconnect E w))\<lparr>timers := tl (timers w)\<rparr>)))"
proof -
  have t: "timers (snd (disconnect E w)) = timers w"
    by (simp add: disconnect_def logout_step_def updateSession_def console_error_def
        split: option.splits)
  show ?thesis
    by (cases "timers w") (simp_all add: t fire_timer_def)
qed

theorem disconnect_keeps_timers_witness:
  "timers (world_open\<lparr>timers := [3000]\<rparr>) \<noteq> [] \<and>
   timers (snd (disconnect env_ok (world_open\<lparr>timers := [3000]\<rparr>))) = [3000] \<and>
   sock (fire_timer env_ok (snd (disconnect env_ok (world_open\<lparr>timers := [3000]\<rparr>)))) =
     Some (new_sock env_ok)"
proof -
  have a: "timers (world_open\<lparr>timers := [3000]\<rparr>) \<noteq> []" by simp
  have "sock (snd (connectToWhatsApp env_ok w)) = Some (new_sock env_ok)" for w
    by (simp add: connectToWhatsApp_def env_ok_def)
  then show ?thesis
    using disconnect_keeps_timers [of env_ok "world_open\<lparr>timers := [3000]\<rparr>" env_ok] a
    by simp
qed

text \<open>
  C2 as stated fails: a close with status 500 on the open service schedules a timer, the
  \<open>disconnect\<close> that follows succeeds and leaves it pending, and when it fires the service
  holds a new socket.
\<close>

theorem disconnect_timer_counterexample:
  "timers (snd (handleConnectionUpdate env_ok update_close_500 world_open)) = [3000] \<and>
   fst (disconnect env_ok (snd (handleConnectionUpdate env_ok update_close_500 world_open))) =
     Inr () \<and>
   timers (snd (disconnect env_ok
                  (snd (handleConnectionUpdate env_ok update_close_500 world_open)))) = [3000] \<and>
   sock (snd (disconnect env_ok
                (snd (handleConnectionUpdate env_ok update_close_500 world_open)))) = None \<and>
   sock (fire_timer env_ok
          (snd (disconnect env_ok
                  (snd (handleConnectionUpdate env_ok update_close_500 world_open))))) =
     Some (new_sock env_ok)"
  by (simp add: world_open_eq update_close_500_def disconnect_def logout_step_def fire_timer_def
      DisconnectReason_loggedOut_def run_defs)

subsection \<open>disconnect when logout throws\<close>

text \<open>
  C3, as the code has it. When the service holds a socket and its \<open>logout\<close> throws,
  \<open>disconnect\<close> writes the error to the console and throws it again: nothing else changes,
  so the Session is not written, the socket is kept and \<open>isInitialized\<close> is left as it was.
  When there is no socket or \<open>logout\<close> resolves, and the Session write succeeds,
  \<open>disconnect\<close> returns normally with the Session persisted as disconnected, the socket
  dropped and the service marked uninitialized. These are the two cases stated; a Session
  write that throws after \<open>logout\<close> has resolved is not among them.
\<close>

theorem disconnect_logout_failure:
  "(sock w \<noteq> None \<and> logout_error E = Some e \<longrightarrow>
      disconnect E w = (Inl e, console_error ''Error disconnecting:'' e w)) \<and>
   ((sock w = None \<or> logout_error E = None) \<and>
    updateSession_error E
      \<lparr>set_phoneNumber = Some None, set_isConnected = Some False, set_qrCode = Some None,
       set_lastConnected = None\<rparr> = None \<longrightarrow>
      fst (disconnect E w) = Inr () \<and>
      \<not> isInitialized (snd (disconnect E w)) \<and>
      sock (snd (disconnect E w)) = None \<and>
      (\<exists>s. session (snd (disconnect E w)) = Some s \<and> \<not> isConnected s \<and>
           phoneNumber s = None \<and> qrCode s = None))"
  by (auto simp add: disconnect_def logout_step_def updateSession_def apply_patch_def
      split: option.splits)

theorem disconnect_logout_failure_witness:
  "disconnect env_logout_fails world_open =
     (Inl (Error ''Connection Closed''),
      console_error ''Error disconnecting:'' (Error ''Connection Closed'') world_open) \<and>
   fst (disconnect env_ok world_open) = Inr () \<and>
   \<not> isInitialized (snd (disconnect env_ok world_open)) \<and>
   sock (snd (disconnect env_ok world_open)) = None \<and>
   map_option isConnected (session (snd (disconnect env_ok world_open))) = Some False"
proof -
  have a: "sock world_open \<noteq> None \<and>
           logout_error env_logout_fails = Some (Error ''Connection Closed'')"
    by (simp add: world_open_eq env_logout_fails_def)
  have b: "(sock world_open = None \<or> logout_error env_ok = None) \<and>
    updateSession_error env_ok
      \<lparr>set_phoneNumber = Some None, set_isConnected = Some False, set_qrCode = Some None,
       set_lastConnected = None\<rparr> = None"
    by (simp add: env_ok_def)
  from disconnect_logout_failure [of world_open env_logout_fails "Error ''Connection Closed''"] a
  have 1: "disconnect env_logout_fails world_open =
     (Inl (Error ''Connection Closed''),
      console_error ''Error disconnecting:'' (Error ''Connection Closed'') world_open)"
    by blast
  from disconnect_logout_failure [of world_open env_ok "Error ''Connection Closed''"] b
  have 2: "fst (disconnect env_ok world_open) = Inr () \<and>
      \<not> isInitialized (snd (disconnect env_ok world_open)) \<and>
      sock (snd (disconnect env_ok world_open)) = None \<and>
      (\<exists>s. session (snd (disconnect env_ok world_open)) = Some s \<and> \<not> isConnected s \<and>
           phoneNumber s = None \<and> qrCode s = None)"
    by blast
  from 1 2 show ?thesis by auto
qed

text \<open>
  C3 as stated fails: on the open service with a \<open>logout\<close> that throws, \<open>disconnect\<close>
  throws that error, the service is still marked initialized and the persisted Session is
  untouched, still connected.
\<close>

theorem disconnect_logout_counterexample:
  "sock world_open \<noteq> None \<and>
   fst (disconnect env_logout_fails world_open) = Inl (Error ''Connection Closed'') \<and>
   isInitialized (snd (disconnect env_logout_fails world_open)) \<and>
   session (snd (disconnect env_logout_fails world_open)) = session world_open \<and>
   map_option isConnected (session (snd (disconnect env_logout_fails world_open))) = Some True"
  by (simp add: world_open_eq env_logout_fails_def disconnect_def logout_step_def run_defs)

subsection \<open>sendMessage\<close>

text \<open>
  C4, as the code has it. The Message write stands inside the try block of the transport
  call: when the socket accepted the send and \<open>createMessage\<close> then throws \<open>e\<close>,
  \<open>sendMessage\<close> writes \<open>e\<close> to the console and throws a new Error with the message of \<open>e\<close>
  (or \<open>Failed to send message\<close> when that is empty). The transport call was made, and no
  Message is stored.
\<close>

theorem sendMessage_persistence_failure:
  assumes "sock w = Some s"
    and "case session w of None \<Rightarrow> False | Some se \<Rightarrow> isConnected se"
    and "send_error E (chatId_for to) text = None"
    and "contacts w (chatId_for to) = None \<longrightarrow>
         contact_error E
           \<lparr>contact_id = chatId_for to, contact_name = None, number = to, pushname = None,
            isGroup = str_includes (chatId_for to) ''@g.us''\<rparr> = None"
    and "message_error E
           \<lparr>chatId = chatId_for to, msg_from = or_str (user_id s) (chatId_for to),
            msg_to = chatId_for to, body = text, timestamp = now E, isFromMe = True\<rparr> = Some e"
  shows "fst (sendMessage E to text w) =
           Inl (Error (if message_of e = [] then ''Failed to send message'' else message_of e)) \<and>
         sendCalls (snd (sendMessage E to text w)) = sendCalls w @ [(chatId_for to, text)] \<and>
         messages (snd (sendMessage E to text w)) = messages w \<and>
         console_errors (snd (sendMessage E to text w)) =
           console_errors w @ [(''Error sending message:'', e)]"
  using assms
  by (cases "contacts w (chatId_for to)")
     (simp_all add: sendMessage_def getSession_def send_body_def sock_sendMessage_def
       getContact_def createOrUpdateContact_def createMessage_def console_error_def or_str_def
       Let_def)

theorem sendMessage_persistence_failure_witness:
  "fst (sendMessage env_message_write_fails ''1234567890'' ''hi'' world_open) =
     Inl (Error ''insert failed'') \<and>
   sendCalls (snd (sendMessage env_message_write_fails ''1234567890'' ''hi'' world_open)) =
     [(''1234567890@s.whatsapp.net'', ''hi'')] \<and>
   messages (snd (sendMessage env_message_write_fails ''1234567890'' ''hi'' world_open)) = [] \<and>
   console_errors (snd (sendMessage env_message_write_fails ''1234567890'' ''hi'' world_open)) =
     [(''Error sending message:'', Error ''insert failed'')]"
  using sendMessage_persistence_failure
    [of world_open "\<lparr>sock_no = 1, user_id = Some ''15550001111:7@s.whatsapp.net''\<rparr>"
       env_message_write_fails "''1234567890''" "''hi''" "Error ''insert failed''"]
  by (simp add: world_open_eq env_message_write_fails_def env_ok_def chatId_for_def)

text \<open>
  C4 as stated fails: the socket accepts the send to \<open>1234567890@s.whatsapp.net\<close>, the
  Message write throws, and \<open>sendMessage\<close> does not return the Message but throws.
\<close>

theorem sendMessage_persistence_counterexample:
  "send_error env_message_write_fails ''1234567890@s.whatsapp.net'' ''hi'' = None \<and>
   sendCalls (snd (sendMessage env_message_write_fails ''1234567890'' ''hi'' world_open)) =
     [(''1234567890@s.whatsapp.net'', ''hi'')] \<and>
   fst (sendMessage env_message_write_fails ''1234567890'' ''hi'' world_open) =
     Inl (Error ''insert failed'')"
  by (simp add: world_open_eq env_message_write_fails_def env_ok_def sendMessage_def
      getSession_def send_body_def sock_sendMessage_def getContact_def chatId_for_def
      createOrUpdateContact_def createMessage_def console_error_def or_str_def Let_def)

text \<open>
  C5. Without a socket, or with a persisted Session that is missing or not connected,
  \<open>sendMessage\<close> throws its not-connected error (\<open>WhatsApp client not initialized\<close> at the
  first guard, \<open>WhatsApp is not connected\<close> at the second) and leaves the whole world as it
  was: no call on the socket, no Contact and no Message written.
\<close>

theorem sendMessage_not_connected:
  assumes "sock w = None \<or> \<not> (case session w of None \<Rightarrow> False | Some se \<Rightarrow> isConnected se)"
  shows "fst (sendMessage E to text w) =
           Inl (Error (if sock w = None then ''WhatsApp client not initialized''
                       else ''WhatsApp is not connected'')) \<and>
         snd (sendMessage E to text w) = w \<and>
         sendCalls (snd (sendMessage E to text w)) = sendCalls w \<and>
         contacts (snd (sendMessage E to text w)) = contacts w \<and>
         messages (snd (sendMessage E to text w)) = messages w"
  using assms by (auto simp add: sendMessage_def getSession_def split: option.splits)

theorem sendMessage_not_connected_witness:
  "sock world0 = None \<and>
   sendMessage env_ok ''1234567890'' ''hi'' world0 =
     (Inl (Error ''WhatsApp client not initialized''), world0) \<and>
   sock world_qr \<noteq> None \<and>
   map_option isConnected (session world_qr) = Some False \<and>
   sendMessage env_ok ''1234567890'' ''hi'' world_qr =
     (Inl (Error ''WhatsApp is not connected''), world_qr)"
proof -
  have a: "sock world0 = None" by (simp add: world0_def)
  have b: "sock world_qr \<noteq> None" "map_option isConnected (session world_qr) = Some False"
    "\<not> (case session world_qr of None \<Rightarrow> False | Some se \<Rightarrow> isConnected se)"
    by (simp_all add: world_qr_eq)
  show ?thesis
    using sendMessage_not_connected [of world0 env_ok "''1234567890''" "''hi''"]
      sendMessage_not_connected [of world_qr env_ok "''1234567890''" "''hi''"] a b
    by (simp add: prod_eq_iff)
qed

subsection \<open>The reconnect policy of a close\<close>

lemma timers_on_qr: "timers (snd (on_qr E q w)) = timers w"
  by (simp add: on_qr_def updateSession_def emit_def split: option.splits)

lemma on_close_timers:
  "timers (snd (on_close E code w)) =
     (if fst (on_close E code w) = Inr () \<and> code \<noteq> Some DisconnectReason_loggedOut
      then timers w @ [3000] else timers w)"
  by (simp add: on_close_def updateSession_def emit_def Let_def split: option.splits)

lemma close_timers:
  assumes "connection u = Some Close"
  shows "timers (snd (handleConnectionUpdate E u w)) =
           (if fst (handleConnectionUpdate E u w) = Inr () \<and>
               statusCode u \<noteq> Some DisconnectReason_loggedOut
            then timers w @ [3000] else timers w)"
proof (cases "truthy (qr u)")
  case False
  with assms show ?thesis
    by (simp add: handleConnectionUpdate_def on_close_timers)
next
  case True
  obtain r w1 where q: "on_qr E (the (qr u)) w = (r, w1)"
    by (cases "on_qr E (the (qr u)) w") simp
  have t: "timers w1 = timers w"
    using timers_on_qr [of E "the (qr u)" w] q by simp
  show ?thesis
  proof (cases r)
    case (Inl e)
    with True q t show ?thesis
      by (simp add: handleConnectionUpdate_def)
  next
    case (Inr x)
    with True q t assms show ?thesis
      by (simp add: handleConnectionUpdate_def on_close_timers)
  qed
qed

lemma close_completes:
  assumes "connection u = Some Close" and "\<forall>p. updateSession_error E p = None"
  shows "fst (handleConnectionUpdate E u w) = Inr ()"
  using assms
  by (simp add: handleConnectionUpdate_def on_qr_def on_close_def updateSession_def emit_def
      Let_def split: option.splits)

text \<open>
  C6. A close update whose handler runs to its end, as it does whenever the Session store
  accepts its writes, schedules exactly one timer of 3000 ms when the status code is not
  \<open>DisconnectReason.loggedOut\<close> (also when there is no status code), and that timer, when it
  fires, runs \<open>connectToWhatsApp\<close>; a close with the logged-out code schedules none. The
  handler does not guard its Session write, which comes before \<open>setTimeout\<close>: when that
  write throws, the handler ends there and no timer is scheduled, also for a reason that is
  not a logout. There the code departs from the claim.
\<close>

theorem close_reconnect_policy:
  assumes "connection u = Some Close"
  shows "((\<forall>p. updateSession_error E p = None) \<longrightarrow>
            fst (handleConnectionUpdate E u w) = Inr ()) \<and>
         (fst (handleConnectionUpdate E u w) = Inr () \<and>
          statusCode u \<noteq> Some DisconnectReason_loggedOut \<longrightarrow>
            timers (snd (handleConnectionUpdate E u w)) = timers w @ [3000] \<and>
            (timers w = [] \<longrightarrow>
               fire_timer E' (snd (handleConnectionUpdate E u w)) =
                 snd (connectToWhatsApp E'
                        ((snd (handleConnectionUpdate E u w))\<lparr>timers := []\<rparr>)))) \<and>
         (statusCode u = Some DisconnectReason_loggedOut \<longrightarrow>
            timers (snd (handleConnectionUpdate E u w)) = timers w) \<and>
         (fst (handleConnectionUpdate E u w) \<noteq> Inr () \<longrightarrow>
            timers (snd (handleConnectionUpdate E u w)) = timers w)"
  by (simp add: close_timers [OF assms] close_completes [OF assms] fire_timer_def)

theorem close_reconnect_policy_witness:
  "connection update_close_500 = Some Close \<and>
   fst (handleConnectionUpdate env_ok update_close_500 world_open) = Inr () \<and>
   timers (snd (handleConnectionUpdate env_ok update_close_500 world_open)) = [3000] \<and>
   connection update_close_loggedOut = Some Close \<and>
   timers (snd (handleConnectionUpdate env_ok update_close_loggedOut world_open)) = [] \<and>
   statusCode update_close_500 \<noteq> Some DisconnectReason_loggedOut \<and>
   fst (handleConnectionUpdate env_session_write_fails update_close_500 world_open) =
     Inl (Error ''database is down'') \<and>
   timers (snd (handleConnectionUpdate env_session_write_fails update_close_500 world_open)) = []"
proof -
  have a: "connection update_close_500 = Some Close"
    by (simp add: update_close_500_def)
  have b: "connection update_close_loggedOut = Some Close"
    by (simp add: update_close_loggedOut_def)
  have c: "\<forall>p. updateSession_error env_ok p = None"
    by (simp add: env_ok_def)
  have d: "statusCode update_close_500 \<noteq> Some DisconnectReason_loggedOut"
    by (simp add: update_close_500_def DisconnectReason_loggedOut_def)
  have e: "statusCode update_close_loggedOut = Some DisconnectReason_loggedOut"
    by (simp add: update_close_loggedOut_def DisconnectReason_loggedOut_def)
  have f: "timers world_open = []"
    by (simp add: world_open_eq)
  have g: "fst (handleConnectionUpdate env_session_write_fails update_close_500 world_open) =
             Inl (Error ''database is down'')"
    by (simp add: world_open_eq update_close_500_def env_session_write_fails_def
        DisconnectReason_loggedOut_def run_defs)
  show ?thesis
    using close_reconnect_policy [OF a, of env_ok world_open env_ok]
      close_reconnect_policy [OF b, of env_ok world_open env_ok]
      close_reconnect_policy [OF a, of env_session_write_fails world_open env_ok]
      a b c d e f g
    by simp
qed

subsection \<open>The Session invariant\<close>














subsection \<open>The destination of sendMessage\<close>

lemma str_includes_char: "str_includes s [c] = (c \<in> set s)"
  by (induction s) auto

text \<open>
  C8. \<open>sendMessage\<close> sends to the destination unchanged when it holds the separator \<open>@\<close>, and
  to the destination with \<open>@s.whatsapp.net\<close> appended otherwise: that identifier is the one
  the socket is called with, and the one the stored Message carries as \<open>chatId\<close> and \<open>to\<close>.
\<close>

theorem sendMessage_normalizes_destination:
  "(CHR ''@'' \<in> set to \<longrightarrow> chatId_for to = to) \<and>
   (CHR ''@'' \<notin> set to \<longrightarrow> chatId_for to = to @ ''@s.whatsapp.net'') \<and>
   (sock w \<noteq> None \<and> (case session w of None \<Rightarrow> False | Some se \<Rightarrow> isConnected se) \<longrightarrow>
      sendCalls (snd (sendMessage E to text w)) = sendCalls w @ [(chatId_for to, text)]) \<and>
   (\<forall>saved. fst (sendMessage E to text w) = Inr saved \<longrightarrow>
      chatId saved = chatId_for to \<and> msg_to saved = chatId_for to)"
proof -
  have 1: "CHR ''@'' \<in> set to \<longrightarrow> chatId_for to = to"
    and 2: "CHR ''@'' \<notin> set to \<longrightarrow> chatId_for to = to @ ''@s.whatsapp.net''"
    by (simp_all add: chatId_for_def str_includes_char)
  have 3: "sendCalls (snd (sendMessage E to text w)) = sendCalls w @ [(chatId_for to, text)]"
    if "sock w \<noteq> None" and "case session w of None \<Rightarrow> False | Some se \<Rightarrow> isConnected se"
    using that
    by (auto simp add: sendMessage_def getSession_def send_body_def sock_sendMessage_def
        getContact_def createOrUpdateContact_def createMessage_def console_error_def Let_def
        split: option.splits)
  have 4: "chatId saved = chatId_for to \<and> msg_to saved = chatId_for to"
    if "fst (sendMessage E to text w) = Inr saved" for saved
    using that
    by (auto simp add: sendMessage_def getSession_def send_body_def sock_sendMessage_def
        getContact_def createOrUpdateContact_def createMessage_def console_error_def Let_def
        split: option.splits if_splits)
  from 1 2 3 4 show ?thesis by blast
qed

theorem sendMessage_normalizes_witness:
  "chatId_for ''1234567890'' = ''1234567890@s.whatsapp.net'' \<and>
   chatId_for ''1234567890@g.us'' = ''1234567890@g.us'' \<and>
   sendCalls (snd (sendMessage env_ok ''1234567890'' ''hi'' world_open)) =
     [(''1234567890@s.whatsapp.net'', ''hi'')] \<and>
   sendCalls (snd (sendMessage env_ok ''1234567890@g.us'' ''hi'' world_open)) =
     [(''1234567890@g.us'', ''hi'')]"
  using sendMessage_normalizes_destination [of "''1234567890''" world_open env_ok "''hi''"]
    sendMessage_normalizes_destination [of "''1234567890@g.us''" world_open env_ok "''hi''"]
  by (simp add: world_open_eq)

subsection \<open>The ingest loop\<close>

lemma inbound_message_sock:
  "sock w' = sock w \<Longrightarrow> inbound_message w' msg content = inbound_message w msg content"
  by (simp add: inbound_message_def)

lemma extends_refl: "extends w w"
  by (simp add: extends_def)

lemma extends_trans:
  assumes "extends w w'" and "extends w' w''"
  shows "extends w w''"
proof -
  have "sock w'' = sock w" and "io w'' = io w"
    using assms by (simp_all add: extends_def)
  moreover have "set (messages w) \<subseteq> set (messages w'')"
    using assms order_trans [of "set (messages w)" "set (messages w')" "set (messages w'')"]
    by (simp add: extends_def)
  moreover have "dom (contacts w) \<subseteq> dom (contacts w'')"
    using assms order_trans [of "dom (contacts w)" "dom (contacts w')" "dom (contacts w'')"]
    by (simp add: extends_def)
  moreover have "set (console_errors w) \<subseteq> set (console_errors w'')"
    using assms
      order_trans [of "set (console_errors w)" "set (console_errors w')" "set (console_errors w'')"]
    by (simp add: extends_def)
  ultimately show ?thesis by (simp add: extends_def)
qed

lemma extends_console_error: "extends w (console_error label e w)"
  by (auto simp add: extends_def console_error_def)

lemma ingest_item_frame: "extends w (snd (ingest_item E msg content w))"
  by (auto simp add: extends_def ingest_item_def createOrUpdateContact_def createMessage_def
      emit_def split: option.splits)

lemma handleIncomingMessages_frame: "extends w (handleIncomingMessages E batch w)"
proof (induction batch arbitrary: w)
  case Nil
  show ?case by (simp add: extends_refl)
next
  case (Cons msg rest)
  show ?case
  proof (cases "message msg")
    case None
    then show ?thesis using Cons.IH [of w] by simp
  next
    case (Some content)
    show ?thesis
    proof (cases "key_fromMe msg")
      case True
      with Some show ?thesis using Cons.IH [of w] by simp
    next
      case False
      obtain r w' where it: "ingest_item E msg content w = (r, w')"
        by (cases "ingest_item E msg content w") simp
      have f: "extends w w'"
        using ingest_item_frame [of w E msg content] it by simp
      show ?thesis
      proof (cases r)
        case (Inl e)
        let ?w = "console_error ''Error processing message:'' e w'"
        have "extends w ?w"
          using f extends_console_error [of w'] by (rule extends_trans)
        then have "extends w (handleIncomingMessages E rest ?w)"
          using Cons.IH [of ?w] by (rule extends_trans)
        with Some False it Inl show ?thesis by simp
      next
        case (Inr u)
        have "extends w (handleIncomingMessages E rest w')"
          using f Cons.IH [of w'] by (rule extends_trans)
        with Some False it Inr show ?thesis by simp
      qed
    qed
  qed
qed

lemma ingest_item_stored:
  assumes "contact_error E (inbound_contact msg) = None"
    and "message_error E (inbound_message w msg content) = None"
  shows "fst (ingest_item E msg content w) = Inr () \<and>
         inbound_message w msg content \<in> set (messages (snd (ingest_item E msg content w))) \<and>
         contact_id (inbound_contact msg) \<in> dom (contacts (snd (ingest_item E msg content w)))"
  using assms
  by (simp add: ingest_item_def createOrUpdateContact_def createMessage_def emit_def
      inbound_message_def split: option.splits)

lemma ingest_item_throws:
  assumes "contact_error E (inbound_contact msg) = Some e \<or>
           (contact_error E (inbound_contact msg) = None \<and>
            message_error E (inbound_message w msg content) = Some e)"
  shows "fst (ingest_item E msg content w) = Inl e"
  using assms
  by (auto simp add: ingest_item_def createOrUpdateContact_def createMessage_def
      inbound_message_def)

lemma batch_member_processed:
  assumes "msg \<in> set batch" and "message msg = Some content" and "\<not> key_fromMe msg"
  shows "\<exists>wk. sock wk = sock w \<and>
           extends (snd (ingest_item E msg content wk)) (handleIncomingMessages E batch w) \<and>
           (\<forall>e. fst (ingest_item E msg content wk) = Inl e \<longrightarrow>
                (''Error processing message:'', e)
                  \<in> set (console_errors (handleIncomingMessages E batch w)))"
  using assms(1)
proof (induction batch arbitrary: w)
  case Nil
  then show ?case by simp
next
  case (Cons x rest)
  show ?case
  proof (cases "x = msg")
    case True
    obtain r w' where it: "ingest_item E msg content w = (r, w')"
      by (cases "ingest_item E msg content w") simp
    show ?thesis
    proof (cases r)
      case (Inl e)
      let ?w = "console_error ''Error processing message:'' e w'"
      have fin: "handleIncomingMessages E (x # rest) w = handleIncomingMessages E rest ?w"
        using True assms(2,3) it Inl by simp
      have ex: "extends ?w (handleIncomingMessages E rest ?w)"
        by (rule handleIncomingMessages_frame)
      have "extends w' (handleIncomingMessages E rest ?w)"
        using extends_console_error [of w'] ex by (rule extends_trans)
      moreover have "(''Error processing message:'', e)
                       \<in> set (console_errors (handleIncomingMessages E rest ?w))"
        using ex by (auto simp add: extends_def console_error_def)
      ultimately show ?thesis
        using fin it Inl by (intro exI [of _ w]) simp
    next
      case (Inr u)
      have fin: "handleIncomingMessages E (x # rest) w = handleIncomingMessages E rest w'"
        using True assms(2,3) it Inr by simp
      have "extends w' (handleIncomingMessages E rest w')"
        by (rule handleIncomingMessages_frame)
      then show ?thesis
        using fin it Inr by (intro exI [of _ w]) simp
    qed
  next
    case False
    then have mem: "msg \<in> set rest" using Cons.prems by simp
    obtain w1 where step: "handleIncomingMessages E (x # rest) w = handleIncomingMessages E rest w1"
      and sk: "sock w1 = sock w"
    proof (cases "message x")
      case None
      then show ?thesis using that [of w] by simp
    next
      case (Some c)
      show ?thesis
      proof (cases "key_fromMe x")
        case True
        with Some show ?thesis using that [of w] by simp
      next
        case nf: False
        obtain r w' where it: "ingest_item E x c w = (r, w')"
          by (cases "ingest_item E x c w") simp
        have s: "sock w' = sock w"
          using ingest_item_frame [of w E x c] it by (simp add: extends_def)
        show ?thesis
        proof (cases r)
          case (Inl e)
          show ?thesis
            using that [of "console_error ''Error processing message:'' e w'"] Some nf it Inl s
            by (simp add: console_error_def)
        next
          case (Inr u)
          show ?thesis using that [of w'] Some nf it Inr s by simp
        qed
      qed
    qed
    from Cons.IH [OF mem, of w1] show ?thesis
      using step sk by auto
  qed
qed

text \<open>
  C9. A throw while one item of an inbound batch is processed is caught and written to the
  console, and the loop goes on: every item of the batch that has message content and is
  not from the account itself is processed, wherever it stands and whatever happens to
  the others. If its Contact and Message writes succeed, its Message and its Contact key are
  in the store when the batch is done; if one of them throws \<open>e\<close>, the console holds
  \<open>Error processing message:\<close> with \<open>e\<close>.
\<close>

theorem batch_item_isolated:
  assumes "msg \<in> set batch" and "message msg = Some content" and "\<not> key_fromMe msg"
  shows "(contact_error E (inbound_contact msg) = None \<and>
          message_error E (inbound_message w msg content) = None \<longrightarrow>
            inbound_message w msg content \<in> set (messages (handleIncomingMessages E batch w)) \<and>
            contact_id (inbound_contact msg)
              \<in> dom (contacts (handleIncomingMessages E batch w))) \<and>
         (contact_error E (inbound_contact msg) = Some e \<or>
          (contact_error E (inbound_contact msg) = None \<and>
           message_error E (inbound_message w msg content) = Some e) \<longrightarrow>
            (''Error processing message:'', e)
              \<in> set (console_errors (handleIncomingMessages E batch w)))"
proof -
  obtain wk where sk: "sock wk = sock w"
    and ex: "extends (snd (ingest_item E msg content wk)) (handleIncomingMessages E batch w)"
    and lg: "\<And>e. fst (ingest_item E msg content wk) = Inl e \<Longrightarrow>
                (''Error processing message:'', e)
                  \<in> set (console_errors (handleIncomingMessages E batch w))"
    using batch_member_processed [OF assms, of w E] by blast
  have im: "inbound_message wk msg content = inbound_message w msg content"
    using sk by (rule inbound_message_sock)
  have 1: "inbound_message w msg content \<in> set (messages (handleIncomingMessages E batch w)) \<and>
           contact_id (inbound_contact msg) \<in> dom (contacts (handleIncomingMessages E batch w))"
    if "contact_error E (inbound_contact msg) = None"
      and "message_error E (inbound_message w msg content) = None"
    using ingest_item_stored [of E msg wk content] that im ex
    by (auto simp add: extends_def)
  have 2: "(''Error processing message:'', e)
             \<in> set (console_errors (handleIncomingMessages E batch w))"
    if "contact_error E (inbound_contact msg) = Some e \<or>
        (contact_error E (inbound_contact msg) = None \<and>
         message_error E (inbound_message w msg content) = Some e)"
    using ingest_item_throws [of E msg e wk content] that im lg by simp
  from 1 2 show ?thesis by blast
qed

theorem batch_item_isolated_witness:
  "map body (messages (handleIncomingMessages env_two_fails batch3 world_open)) =
     [''one'', ''three''] \<and>
   inbound_message world_open (inbound ''111@s.whatsapp.net'' ''one'')
       \<lparr>conversation = Some ''one'', extendedTextMessage_text = None\<rparr>
     \<in> set (messages (handleIncomingMessages env_two_fails batch3 world_open)) \<and>
   inbound_message world_open (inbound ''333@g.us'' ''three'')
       \<lparr>conversation = Some ''three'', extendedTextMessage_text = None\<rparr>
     \<in> set (messages (handleIncomingMessages env_two_fails batch3 world_open)) \<and>
   ''111@s.whatsapp.net'' \<in> dom (contacts (handleIncomingMessages env_two_fails batch3 world_open)) \<and>
   ''333@g.us'' \<in> dom (contacts (handleIncomingMessages env_two_fails batch3 world_open)) \<and>
   (''Error processing message:'', Error ''insert failed'')
     \<in> set (console_errors (handleIncomingMessages env_two_fails batch3 world_open))"
proof -
  have 0: "map body (messages (handleIncomingMessages env_two_fails batch3 world_open)) =
             [''one'', ''three'']"
    by (simp add: world_open_eq batch3_def inbound_def env_two_fails_def env_ok_def ingest_defs)
  have 1: "inbound_message world_open (inbound ''111@s.whatsapp.net'' ''one'')
               \<lparr>conversation = Some ''one'', extendedTextMessage_text = None\<rparr>
             \<in> set (messages (handleIncomingMessages env_two_fails batch3 world_open)) \<and>
           ''111@s.whatsapp.net''
             \<in> dom (contacts (handleIncomingMessages env_two_fails batch3 world_open))"
    using batch_item_isolated
      [of "inbound ''111@s.whatsapp.net'' ''one''" batch3
          "\<lparr>conversation = Some ''one'', extendedTextMessage_text = None\<rparr>"
          env_two_fails world_open]
    by (simp add: batch3_def inbound_def env_two_fails_def env_ok_def inbound_message_def
        inbound_contact_def or_str_def Let_def)
  have 3: "inbound_message world_open (inbound ''333@g.us'' ''three'')
               \<lparr>conversation = Some ''three'', extendedTextMessage_text = None\<rparr>
             \<in> set (messages (handleIncomingMessages env_two_fails batch3 world_open)) \<and>
           ''333@g.us''
             \<in> dom (contacts (handleIncomingMessages env_two_fails batch3 world_open))"
    using batch_item_isolated
      [of "inbound ''333@g.us'' ''three''" batch3
          "\<lparr>conversation = Some ''three'', extendedTextMessage_text = None\<rparr>"
          env_two_fails world_open]
    by (simp add: batch3_def inbound_def env_two_fails_def env_ok_def inbound_message_def
        inbound_contact_def or_str_def Let_def)
  have 2: "(''Error processing message:'', Error ''insert failed'')
             \<in> set (console_errors (handleIncomingMessages env_two_fails batch3 world_open))"
    using batch_item_isolated
      [of "inbound ''222@s.whatsapp.net'' ''two''" batch3
          "\<lparr>conversation = Some ''two'', extendedTextMessage_text = None\<rparr>"
          env_two_fails world_open "Error ''insert failed''"]
    by (simp add: batch3_def inbound_def env_two_fails_def env_ok_def inbound_message_def
        inbound_contact_def or_str_def Let_def)
  from 0 1 2 3 show ?thesis by simp
qed

subsection \<open>What the ingest loop stores and publishes\<close>

lemma ingest_item_effect:
  "\<exists>new. messages (snd (ingest_item E msg content w)) = messages w @ new \<and>
         emitted (snd (ingest_item E msg content w)) =
           emitted w @ (if io w = None then []
                        else map (\<lambda>m. Ev_message (chatId m) (msg_from m) (body m)) new) \<and>
         (\<forall>m\<in>set new. msg_from m = chatId m \<and> \<not> isFromMe m) \<and>
         io (snd (ingest_item E msg content w)) = io w"
proof (cases "fst (ingest_item E msg content w)")
  case (Inl e)
  then have "messages (snd (ingest_item E msg content w)) = messages w @ [] \<and>
             emitted (snd (ingest_item E msg content w)) = emitted w \<and>
             io (snd (ingest_item E msg content w)) = io w"
    by (auto simp add: ingest_item_def createOrUpdateContact_def createMessage_def emit_def
        split: option.splits)
  then show ?thesis by (intro exI [of _ "[]"]) simp
next
  case (Inr u)
  let ?m = "inbound_message w msg content"
  from Inr have "messages (snd (ingest_item E msg content w)) = messages w @ [?m] \<and>
             emitted (snd (ingest_item E msg content w)) =
               emitted w @ (if io w = None then [] else [inbound_event msg content]) \<and>
             io (snd (ingest_item E msg content w)) = io w"
    by (auto simp add: ingest_item_def createOrUpdateContact_def createMessage_def emit_def
        inbound_message_def split: option.splits)
  moreover have "inbound_event msg content = Ev_message (chatId ?m) (msg_from ?m) (body ?m)"
    and "msg_from ?m = chatId ?m" and "\<not> isFromMe ?m"
    by (simp_all add: inbound_event_def inbound_message_def Let_def)
  ultimately show ?thesis by (intro exI [of _ "[?m]"]) simp
qed

text \<open>
  C10. The Messages a run of the ingest loop appends all have \<open>from\<close> equal to \<open>chatId\<close> and
  \<open>isFromMe\<close> false, and the \<open>message\<close> events of the run are, in order, one per appended
  Message, carrying its \<open>chatId\<close>, its \<open>from\<close> and its \<open>body\<close> (none at all while \<open>io\<close> is null).
\<close>

theorem inbound_messages_from_chat:
  "\<exists>new. messages (handleIncomingMessages E batch w) = messages w @ new \<and>
         (\<forall>m\<in>set new. msg_from m = chatId m \<and> \<not> isFromMe m) \<and>
         emitted (handleIncomingMessages E batch w) =
           emitted w @ (if io w = None then []
                        else map (\<lambda>m. Ev_message (chatId m) (msg_from m) (body m)) new)"
proof (induction batch arbitrary: w)
  case Nil
  show ?case by simp
next
  case (Cons x rest)
  show ?case
  proof (cases "message x")
    case None
    then show ?thesis using Cons.IH [of w] by simp
  next
    case (Some c)
    show ?thesis
    proof (cases "key_fromMe x")
      case True
      with Some show ?thesis using Cons.IH [of w] by simp
    next
      case False
      obtain r w' where it: "ingest_item E x c w = (r, w')"
        by (cases "ingest_item E x c w") simp
      obtain new1 where m1: "messages w' = messages w @ new1"
        and e1: "emitted w' = emitted w @ (if io w = None then []
                   else map (\<lambda>m. Ev_message (chatId m) (msg_from m) (body m)) new1)"
        and p1: "\<forall>m\<in>set new1. msg_from m = chatId m \<and> \<not> isFromMe m"
        and i1: "io w' = io w"
        using ingest_item_effect [of E x c w] it by auto
      define w1 where "w1 = (case r of Inl e \<Rightarrow> console_error ''Error processing message:'' e w'
                             | Inr u \<Rightarrow> w')"
      have same: "messages w1 = messages w'" "emitted w1 = emitted w'" "io w1 = io w'"
        by (simp_all add: w1_def console_error_def split: sum.splits)
      have step: "handleIncomingMessages E (x # rest) w = handleIncomingMessages E rest w1"
        using Some False it by (simp add: w1_def split: sum.splits)
      obtain new2 where m2: "messages (handleIncomingMessages E rest w1) = messages w1 @ new2"
        and p2: "\<forall>m\<in>set new2. msg_from m = chatId m \<and> \<not> isFromMe m"
        and e2: "emitted (handleIncomingMessages E rest w1) =
                   emitted w1 @ (if io w1 = None then []
                     else map (\<lambda>m. Ev_message (chatId m) (msg_from m) (body m)) new2)"
        using Cons.IH [of w1] by auto
      show ?thesis
        using step same m1 e1 p1 i1 m2 p2 e2
        by (intro exI [of _ "new1 @ new2"]) auto
    qed
  qed
qed

theorem inbound_messages_witness:
  "messages (handleIncomingMessages env_ok batch3 world_open) =
     [inbound_message world_open (inbound ''111@s.whatsapp.net'' ''one'')
        \<lparr>conversation = Some ''one'', extendedTextMessage_text = None\<rparr>,
      inbound_message world_open (inbound ''222@s.whatsapp.net'' ''two'')
        \<lparr>conversation = Some ''two'', extendedTextMessage_text = None\<rparr>,
      inbound_message world_open (inbound ''333@g.us'' ''three'')
        \<lparr>conversation = Some ''three'', extendedTextMessage_text = None\<rparr>] \<and>
   emitted (handleIncomingMessages env_ok batch3 world_open) =
     [Ev_ready, Ev_message ''111@s.whatsapp.net'' ''111@s.whatsapp.net'' ''one'',
      Ev_message ''222@s.whatsapp.net'' ''222@s.whatsapp.net'' ''two'',
      Ev_message ''333@g.us'' ''333@g.us'' ''three'']"
proof -
  have m: "messages (handleIncomingMessages env_ok batch3 world_open) =
     [inbound_message world_open (inbound ''111@s.whatsapp.net'' ''one'')
        \<lparr>conversation = Some ''one'', extendedTextMessage_text = None\<rparr>,
      inbound_message world_open (inbound ''222@s.whatsapp.net'' ''two'')
        \<lparr>conversation = Some ''two'', extendedTextMessage_text = None\<rparr>,
      inbound_message world_open (inbound ''333@g.us'' ''three'')
        \<lparr>conversation = Some ''three'', extendedTextMessage_text = None\<rparr>]"
    by (simp add: world_open_eq batch3_def inbound_def env_ok_def ingest_defs)
  have i: "io world_open \<noteq> None" "messages world_open = []" "emitted world_open = [Ev_ready]"
    by (simp_all add: world_open_eq)
  show ?thesis
    using inbound_messages_from_chat [of env_ok batch3 world_open] m i
    by (auto simp add: inbound_message_def inbound_def or_str_def Let_def)
qed

end
